theory Spec2Isabelle
  imports Complex_Main "HOL-Library.AList"
begin

section \<open>Python values and dictionaries\<close>

text \<open>
  The fixtures of the backend are Python dict and list literals holding booleans,
  integers, floats and strings. A float is kept as the decimal number its literal
  denotes: no handler does arithmetic on a float, they are only stored and returned.
  A dict is an association list in insertion order with pairwise distinct keys.
\<close>

datatype pyval = PyNone | PyBool bool | PyInt int | PyFloat real | PyStr string

type_synonym pydict = "(string \<times> pyval) list"

datatype py_error = KeyError string

text \<open>\<^verbatim>\<open>k in d\<close>\<close>

definition dict_contains :: "(string \<times> 'v) list \<Rightarrow> string \<Rightarrow> bool" where
  "dict_contains d k = (k \<in> set (map fst d))"

text \<open>\<^verbatim>\<open>d[k]\<close>, which raises KeyError on a missing key\<close>

definition dict_getitem :: "(string \<times> 'v) list \<Rightarrow> string \<Rightarrow> py_error + 'v" where
  "dict_getitem d k = (case map_of d k of None \<Rightarrow> Inl (KeyError k) | Some v \<Rightarrow> Inr v)"

text \<open>
  \<^verbatim>\<open>d[k] = v\<close>: an existing key keeps its position and gets the new value, a new key
  is appended.
\<close>

definition dict_setitem :: "string \<Rightarrow> 'v \<Rightarrow> (string \<times> 'v) list \<Rightarrow> (string \<times> 'v) list" where
  "dict_setitem k v d = AList.update k v d"

section \<open>api/models.py: the request model of PATCH /settings\<close>

text \<open>\<^verbatim>\<open>Literal["futures", "spot"]\<close>\<close>

datatype account_type = futures | spot

fun account_type_str :: "account_type \<Rightarrow> string" where
  "account_type_str futures = ''futures''"
| "account_type_str spot = ''spot''"

text \<open>
  A field declared \<^verbatim>\<open>Optional[T] = None\<close> of a request model is in one of three
  states after the body has been read: the key was absent from the body (\<open>Unset\<close>,
  the attribute holds the default None and the name is not among the fields set),
  the key was present with null (\<open>Null\<close>), or present with a value of type T
  (\<open>Given\<close>).
\<close>

datatype 'a optional_field = Unset | Null | Given 'a

record SettingsUpdate =
  autoTrading :: "bool optional_field"
  stopLoss :: "real optional_field"
  takeProfit :: "real optional_field"
  telegramAlerts :: "bool optional_field"
  accountType :: "account_type optional_field"

text \<open>One entry of \<^verbatim>\<open>settings.dict(exclude_unset=True)\<close>: an unset field has none.\<close>

fun field_item :: "string \<Rightarrow> ('a \<Rightarrow> pyval) \<Rightarrow> 'a optional_field \<Rightarrow> pydict" where
  "field_item k conv Unset = []"
| "field_item k conv Null = [(k, PyNone)]"
| "field_item k conv (Given v) = [(k, conv v)]"

text \<open>\<^verbatim>\<open>settings.dict(exclude_unset=True)\<close>: the fields that were set, in declaration order.\<close>

definition dict_exclude_unset :: "SettingsUpdate \<Rightarrow> pydict" where
  "dict_exclude_unset s =
     field_item ''autoTrading'' PyBool (autoTrading s) @
     field_item ''stopLoss'' PyFloat (stopLoss s) @
     field_item ''takeProfit'' PyFloat (takeProfit s) @
     field_item ''telegramAlerts'' PyBool (telegramAlerts s) @
     field_item ''accountType'' (\<lambda>a. PyStr (account_type_str a)) (accountType s)"

text \<open>The request body \<^verbatim>\<open>{}\<close>: no field is set.\<close>

definition empty_update :: SettingsUpdate where
  "empty_update = \<lparr>autoTrading = Unset, stopLoss = Unset, takeProfit = Unset,
     telegramAlerts = Unset, accountType = Unset\<rparr>"

section \<open>api/settings.py\<close>

definition mock_settings_data :: pydict where
  "mock_settings_data =
     [(''autoTrading'', PyBool False),
      (''stopLoss'', PyFloat 2.5),
      (''takeProfit'', PyFloat 5.0),
      (''telegramAlerts'', PyBool True),
      (''accountType'', PyStr ''futures'')]"

text \<open>
  The handlers read and write the module-level dict \<^verbatim>\<open>mock_settings_data\<close>; the
  model passes its current content in and returns the new content. The constant
  \<open>mock_settings_data\<close> is the content at startup.
\<close>

definition get_settings :: "pydict \<Rightarrow> pydict" where
  "get_settings st = st"

text \<open>
  \<^verbatim>\<open>
  for key, value in settings.dict(exclude_unset=True).items():
      if value is not None:
          mock_settings_data[key] = value
  \<close>
\<close>

fun update_loop :: "pydict \<Rightarrow> pydict \<Rightarrow> pydict" where
  "update_loop [] st = st"
| "update_loop ((key, val) # items) st =
     update_loop items (if val \<noteq> PyNone then dict_setitem key val st else st)"

text \<open>The result is the pair of the returned dict and the stored dict after the call.\<close>

definition update_settings :: "SettingsUpdate \<Rightarrow> pydict \<Rightarrow> pydict \<times> pydict" where
  "update_settings settings st =
     (let st' = update_loop (dict_exclude_unset settings) st in (st', st'))"

text \<open>The stored dict after a sequence of PATCH requests, applied left to right.\<close>

definition apply_updates :: "SettingsUpdate list \<Rightarrow> pydict \<Rightarrow> pydict" where
  "apply_updates us st = foldl (\<lambda>s u. snd (update_settings u s)) st us"

section \<open>api/signal.py\<close>

definition signal_default :: pydict where
  "signal_default =
     [(''signal'', PyStr ''SELL''),
      (''entryPoint'', PyFloat 1589.9),
      (''stopLoss'', PyFloat 1610.5),
      (''targetPrice'', PyFloat 1550.0),
      (''confidence'', PyInt 81),
      (''reasoning'', PyStr ''Hourly chart showing bearish divergence on RSI. Price rejected at key resistance level with increasing sell volume.''),
      (''timestamp'', PyStr ''2023-07-21 14:00:00 (1h)'')]"

definition signal_1m :: pydict where
  "signal_1m =
     [(''signal'', PyStr ''SELL''),
      (''entryPoint'', PyFloat 1589.9),
      (''stopLoss'', PyFloat 1595.0),
      (''targetPrice'', PyFloat 1580.0),
      (''confidence'', PyInt 65),
      (''reasoning'', PyStr ''Short-term momentum showing downward pressure with increasing sell volume.''),
      (''timestamp'', PyStr ''2023-07-21 14:45:12 (1m)'')]"

definition signal_5m :: pydict where
  "signal_5m =
     [(''signal'', PyStr ''SELL''),
      (''entryPoint'', PyFloat 1589.9),
      (''stopLoss'', PyFloat 1600.0),
      (''targetPrice'', PyFloat 1570.0),
      (''confidence'', PyInt 72),
      (''reasoning'', PyStr ''Price breaking below 5-minute support with strong volume confirmation. MACD showing bearish crossover.''),
      (''timestamp'', PyStr ''2023-07-21 14:40:05 (5m)'')]"

definition signal_15m :: pydict where
  "signal_15m =
     [(''signal'', PyStr ''SELL''),
      (''entryPoint'', PyFloat 1589.9),
      (''stopLoss'', PyFloat 1605.0),
      (''targetPrice'', PyFloat 1560.0),
      (''confidence'', PyInt 78),
      (''reasoning'', PyStr ''15-minute chart showing clear downtrend with lower highs. RSI indicating bearish momentum.''),
      (''timestamp'', PyStr ''2023-07-21 14:32:05 (15m)'')]"

definition signal_1h :: pydict where
  "signal_1h =
     [(''signal'', PyStr ''SELL''),
      (''entryPoint'', PyFloat 1589.9),
      (''stopLoss'', PyFloat 1610.5),
      (''targetPrice'', PyFloat 1550.0),
      (''confidence'', PyInt 81),
      (''reasoning'', PyStr ''Hourly chart showing bearish divergence on RSI. Price rejected at key resistance level with increasing sell volume.''),
      (''timestamp'', PyStr ''2023-07-21 14:00:00 (1h)'')]"

definition signal_4h :: pydict where
  "signal_4h =
     [(''signal'', PyStr ''SELL''),
      (''entryPoint'', PyFloat 1589.9),
      (''stopLoss'', PyFloat 1620.0),
      (''targetPrice'', PyFloat 1540.0),
      (''confidence'', PyInt 85),
      (''reasoning'', PyStr ''4-hour chart showing clear bearish pattern with decreasing buy volume. Multiple resistance rejections.''),
      (''timestamp'', PyStr ''2023-07-21 12:00:00 (4h)'')]"

definition signal_1d :: pydict where
  "signal_1d =
     [(''signal'', PyStr ''HOLD''),
      (''entryPoint'', PyFloat 1589.9),
      (''stopLoss'', PyFloat 1550.0),
      (''targetPrice'', PyFloat 1650.0),
      (''confidence'', PyInt 60),
      (''reasoning'', PyStr ''Daily chart showing consolidation pattern. Waiting for clear breakout direction.''),
      (''timestamp'', PyStr ''2023-07-21 00:00:00 (1d)'')]"

definition mock_signal_data :: "(string \<times> pydict) list" where
  "mock_signal_data =
     [(''default'', signal_default),
      (''1m'', signal_1m),
      (''5m'', signal_5m),
      (''15m'', signal_15m),
      (''1h'', signal_1h),
      (''4h'', signal_4h),
      (''1d'', signal_1d)]"

text \<open>
  \<^verbatim>\<open>
  if timeframe in mock_signal_data:
      return mock_signal_data[timeframe]
  return mock_signal_data["default"]
  \<close>
\<close>

definition get_signal :: "string \<Rightarrow> py_error + pydict" where
  "get_signal timeframe =
     (if dict_contains mock_signal_data timeframe
      then dict_getitem mock_signal_data timeframe
      else dict_getitem mock_signal_data ''default'')"

text \<open>
  The query parameter is declared \<^verbatim>\<open>timeframe: str = Query("15m", ...)\<close>: a request
  without it (\<open>None\<close>) runs the handler on the declared default.
\<close>

definition get_signal_request :: "string option \<Rightarrow> py_error + pydict" where
  "get_signal_request q = get_signal (case q of None \<Rightarrow> ''15m'' | Some t \<Rightarrow> t)"

section \<open>api/trade_log.py\<close>

definition mock_trade_log_data :: "pydict list" where
  "mock_trade_log_data =
     [[(''id'', PyStr ''1''), (''date'', PyStr ''2023-06-01 14:30''), (''direction'', PyStr ''BUY''),
       (''entry'', PyFloat 0.5123), (''exit'', PyFloat 0.5345), (''pnl'', PyFloat 4.33),
       (''status'', PyStr ''COMPLETED'')],
      [(''id'', PyStr ''2''), (''date'', PyStr ''2023-06-02 09:15''), (''direction'', PyStr ''SELL''),
       (''entry'', PyFloat 0.542), (''exit'', PyFloat 0.521), (''pnl'', PyFloat 3.87),
       (''status'', PyStr ''COMPLETED'')],
      [(''id'', PyStr ''3''), (''date'', PyStr ''2023-06-03 11:45''), (''direction'', PyStr ''BUY''),
       (''entry'', PyFloat 0.518), (''exit'', PyFloat 0.511), (''pnl'', PyFloat (-1.35)),
       (''status'', PyStr ''COMPLETED'')],
      [(''id'', PyStr ''4''), (''date'', PyStr ''2023-06-04 16:20''), (''direction'', PyStr ''BUY''),
       (''entry'', PyFloat 0.523), (''exit'', PyInt 0), (''pnl'', PyInt 0),
       (''status'', PyStr ''OPEN'')],
      [(''id'', PyStr ''5''), (''date'', PyStr ''2023-06-05 10:05''), (''direction'', PyStr ''SELL''),
       (''entry'', PyFloat 0.531), (''exit'', PyFloat 0.541), (''pnl'', PyFloat (-1.88)),
       (''status'', PyStr ''COMPLETED'')],
      [(''id'', PyStr ''6''), (''date'', PyStr ''2023-06-06 13:45''), (''direction'', PyStr ''BUY''),
       (''entry'', PyFloat 0.525), (''exit'', PyFloat 0.538), (''pnl'', PyFloat 2.48),
       (''status'', PyStr ''COMPLETED'')],
      [(''id'', PyStr ''7''), (''date'', PyStr ''2023-06-07 15:30''), (''direction'', PyStr ''BUY''),
       (''entry'', PyFloat 0.54), (''exit'', PyFloat 0.552), (''pnl'', PyFloat 2.22),
       (''status'', PyStr ''COMPLETED'')],
      [(''id'', PyStr ''8''), (''date'', PyStr ''2023-06-08 09:20''), (''direction'', PyStr ''SELL''),
       (''entry'', PyFloat 0.549), (''exit'', PyInt 0), (''pnl'', PyInt 0),
       (''status'', PyStr ''OPEN'')]]"

definition get_trade_log :: "pydict list" where
  "get_trade_log = mock_trade_log_data"

text \<open>The ids of a trade collection, in the order of the collection.\<close>

definition trade_ids :: "pydict list \<Rightarrow> (py_error + pyval) list" where
  "trade_ids ts = map (\<lambda>t. dict_getitem t ''id'') ts"


section \<open>What the specification says about the settings\<close>

text \<open>The field names of \<^verbatim>\<open>SettingsData\<close> (api/models.py), in declaration order.\<close>

definition settings_fields :: "string list" where
  "settings_fields = [''autoTrading'', ''stopLoss'', ''takeProfit'', ''telegramAlerts'', ''accountType'']"

text \<open>
  The specification's rule for one field of a partial update: a field present with a
  non-null value overwrites the stored field, any other field keeps its prior value.
  This definition follows the specification, not the code; \<open>update_settings\<close> is
  compared with it.
\<close>

definition spec_field_after :: "('a \<Rightarrow> pyval) \<Rightarrow> 'a optional_field \<Rightarrow> pyval option \<Rightarrow> pyval option" where
  "spec_field_after conv f prior = (case f of Given v \<Rightarrow> Some (conv v) | Null \<Rightarrow> prior | Unset \<Rightarrow> prior)"

text \<open>
  The shape \<^verbatim>\<open>SettingsData\<close> declares (api/models.py): exactly the five fields, two
  booleans, two floats and an account type that is one of the two literals.
\<close>

definition is_bool :: "pyval option \<Rightarrow> bool" where
  "is_bool v = (case v of Some (PyBool b) \<Rightarrow> True | _ \<Rightarrow> False)"

definition is_float :: "pyval option \<Rightarrow> bool" where
  "is_float v = (case v of Some (PyFloat x) \<Rightarrow> True | _ \<Rightarrow> False)"

definition is_account_type :: "pyval option \<Rightarrow> bool" where
  "is_account_type v = (case v of Some (PyStr s) \<Rightarrow> s = ''futures'' \<or> s = ''spot'' | _ \<Rightarrow> False)"

definition conforms_SettingsData :: "pydict \<Rightarrow> bool" where
  "conforms_SettingsData d =
     (distinct (map fst d) \<and> set (map fst d) = set settings_fields \<and>
      is_bool (map_of d ''autoTrading'') \<and>
      is_float (map_of d ''stopLoss'') \<and>
      is_float (map_of d ''takeProfit'') \<and>
      is_bool (map_of d ''telegramAlerts'') \<and>
      is_account_type (map_of d ''accountType''))"

text \<open>
  Example requests: the body \<^verbatim>\<open>{"stopLoss": 3.0, "telegramAlerts": null, "accountType": "spot"}\<close>,
  and the two bodies \<^verbatim>\<open>{"accountType": "spot"}\<close> and \<^verbatim>\<open>{"stopLoss": 1.0}\<close>.
\<close>

definition partial_example :: SettingsUpdate where
  "partial_example = \<lparr>autoTrading = Unset, stopLoss = Given 3.0, takeProfit = Unset,
     telegramAlerts = Null, accountType = Given spot\<rparr>"

definition update_accountType_spot :: SettingsUpdate where
  "update_accountType_spot = empty_update\<lparr>accountType := Given spot\<rparr>"

definition update_stopLoss_1 :: SettingsUpdate where
  "update_stopLoss_1 = empty_update\<lparr>stopLoss := Given 1.0\<rparr>"

text \<open>The timeframe keys of \<^verbatim>\<open>mock_signal_data\<close> (api/signal.py), in the order of the literal.\<close>

definition signal_timeframes :: "string list" where
  "signal_timeframes = [''default'', ''1m'', ''5m'', ''15m'', ''1h'', ''4h'', ''1d'']"

text \<open>
  The \<^verbatim>\<open>confidence\<close> entry of a signal, when it is an integer from 0 to 100 (the
  range the specification gives the field).
\<close>

definition confidence_in_range :: "pydict \<Rightarrow> bool" where
  "confidence_in_range s =
     (case map_of s ''confidence'' of Some (PyInt n) \<Rightarrow> 0 \<le> n \<and> n \<le> 100 | _ \<Rightarrow> False)"

section \<open>Dictionary assignment and the update loop\<close>


lemma dict_setitem_keys:
  "k \<in> set (map fst d) \<Longrightarrow> map fst (dict_setitem k v d) = map fst d"
  by (simp add: dict_setitem_def update_keys)

lemma map_of_dict_setitem:
  "map_of (dict_setitem k v d) k' = (if k' = k then Some v else map_of d k')"
  by (simp add: dict_setitem_def update_conv')

lemma map_of_update_loop:
  "distinct (map fst items) \<Longrightarrow>
   map_of (update_loop items st) k =
     (case map_of items k of
        None \<Rightarrow> map_of st k
      | Some v \<Rightarrow> if v \<noteq> PyNone then Some v else map_of st k)"
proof (induction items arbitrary: st)
  case Nil
  then show ?case by simp
next
  case (Cons kv items)
  obtain key val where kv: "kv = (key, val)" by (cases kv)
  from Cons.prems kv have d: "distinct (map fst items)" and n: "key \<notin> fst ` set items"
    by auto
  from n have none: "map_of items key = None"
    by (simp add: map_of_eq_None_iff)
  show ?case
    using Cons.IH [OF d] none kv
    by (auto simp: map_of_dict_setitem split: option.splits)
qed

lemma keys_update_loop:
  "set (map fst items) \<subseteq> set (map fst st) \<Longrightarrow>
   map fst (update_loop items st) = map fst st"
proof (induction items arbitrary: st)
  case Nil
  then show ?case by simp
next
  case (Cons kv items)
  obtain key val where kv: "kv = (key, val)" by (cases kv)
  show ?case using Cons.prems kv Cons.IH[of "dict_setitem key val st"] Cons.IH[of st]
    by (auto simp: dict_setitem_keys)
qed

lemma field_item_keys: "set (map fst (field_item k c f)) \<subseteq> {k}"
  by (cases f) auto

lemma distinct_dict_exclude_unset: "distinct (map fst (dict_exclude_unset p))"
  unfolding dict_exclude_unset_def
  by (cases "autoTrading p"; cases "stopLoss p"; cases "takeProfit p";
      cases "telegramAlerts p"; cases "accountType p") simp_all

lemma map_of_field_item:
  "map_of (field_item k c f) k' =
     (if k' = k then (case f of Unset \<Rightarrow> None | Null \<Rightarrow> Some PyNone | Given v \<Rightarrow> Some (c v)) else None)"
  by (cases f) auto

lemma map_of_dict_exclude_unset:
  "map_of (dict_exclude_unset p) k =
    (if k = ''autoTrading'' then map_of (field_item ''autoTrading'' PyBool (autoTrading p)) k
     else if k = ''stopLoss'' then map_of (field_item ''stopLoss'' PyFloat (stopLoss p)) k
     else if k = ''takeProfit'' then map_of (field_item ''takeProfit'' PyFloat (takeProfit p)) k
     else if k = ''telegramAlerts'' then map_of (field_item ''telegramAlerts'' PyBool (telegramAlerts p)) k
     else if k = ''accountType'' then map_of (field_item ''accountType'' (\<lambda>a. PyStr (account_type_str a)) (accountType p)) k
     else None)"
  unfolding dict_exclude_unset_def
  by (simp add: map_add_def map_of_field_item split: option.splits)

lemma set_dict_setitem: "set (dict_setitem k v d) \<subseteq> insert (k, v) (set d)"
  unfolding dict_setitem_def by (induction d) auto

lemma values_update_loop:
  "PyNone \<notin> snd ` set st \<Longrightarrow> PyNone \<notin> snd ` set (update_loop items st)"
proof (induction items arbitrary: st)
  case Nil
  then show ?case by simp
next
  case (Cons kv items)
  obtain key val where kv: "kv = (key, val)" by (cases kv)
  have "PyNone \<notin> snd ` set (dict_setitem key val st)" if "val \<noteq> PyNone"
    using that Cons.prems set_dict_setitem [of key val st] by force
  then show ?case using Cons kv by auto
qed

lemma map_of_update_settings:
  "map_of (snd (update_settings p st)) k =
     (case map_of (dict_exclude_unset p) k of
        None \<Rightarrow> map_of st k
      | Some v \<Rightarrow> if v \<noteq> PyNone then Some v else map_of st k)"
  by (simp add: update_settings_def Let_def map_of_update_loop distinct_dict_exclude_unset)

lemma update_settings_returns_store:
  "fst (update_settings p st) = snd (update_settings p st)"
  by (simp add: update_settings_def Let_def)

lemma update_settings_autoTrading:
  "map_of (snd (update_settings p st)) ''autoTrading'' =
     spec_field_after PyBool (autoTrading p) (map_of st ''autoTrading'')"
  by (cases "autoTrading p")
     (simp_all add: map_of_update_settings map_of_dict_exclude_unset map_of_field_item
        spec_field_after_def)

lemma update_settings_stopLoss:
  "map_of (snd (update_settings p st)) ''stopLoss'' =
     spec_field_after PyFloat (stopLoss p) (map_of st ''stopLoss'')"
  by (cases "stopLoss p")
     (simp_all add: map_of_update_settings map_of_dict_exclude_unset map_of_field_item
        spec_field_after_def)

lemma update_settings_takeProfit:
  "map_of (snd (update_settings p st)) ''takeProfit'' =
     spec_field_after PyFloat (takeProfit p) (map_of st ''takeProfit'')"
  by (cases "takeProfit p")
     (simp_all add: map_of_update_settings map_of_dict_exclude_unset map_of_field_item
        spec_field_after_def)

lemma update_settings_telegramAlerts:
  "map_of (snd (update_settings p st)) ''telegramAlerts'' =
     spec_field_after PyBool (telegramAlerts p) (map_of st ''telegramAlerts'')"
  by (cases "telegramAlerts p")
     (simp_all add: map_of_update_settings map_of_dict_exclude_unset map_of_field_item
        spec_field_after_def)

lemma update_settings_accountType:
  "map_of (snd (update_settings p st)) ''accountType'' =
     spec_field_after (\<lambda>a. PyStr (account_type_str a)) (accountType p) (map_of st ''accountType'')"
  by (cases "accountType p")
     (simp_all add: map_of_update_settings map_of_dict_exclude_unset map_of_field_item
        spec_field_after_def)

lemma update_settings_other_keys:
  "k \<notin> set settings_fields \<Longrightarrow> map_of (snd (update_settings p st)) k = map_of st k"
  by (simp add: map_of_update_settings map_of_dict_exclude_unset settings_fields_def)

lemma update_settings_no_null:
  "PyNone \<notin> snd ` set st \<Longrightarrow> PyNone \<notin> snd ` set (snd (update_settings p st))"
  by (simp add: update_settings_def Let_def values_update_loop)

lemma keys_dict_exclude_unset:
  "set (map fst (dict_exclude_unset u)) \<subseteq> set settings_fields"
  using field_item_keys [of "''autoTrading''" PyBool "autoTrading u"]
    field_item_keys [of "''stopLoss''" PyFloat "stopLoss u"]
    field_item_keys [of "''takeProfit''" PyFloat "takeProfit u"]
    field_item_keys [of "''telegramAlerts''" PyBool "telegramAlerts u"]
    field_item_keys [of "''accountType''" "\<lambda>a. PyStr (account_type_str a)" "accountType u"]
  unfolding dict_exclude_unset_def settings_fields_def by auto

lemma update_settings_keys:
  assumes "set settings_fields \<subseteq> set (map fst st)"
  shows "map fst (snd (update_settings u st)) = map fst st"
proof -
  from assms keys_dict_exclude_unset [of u]
  have "set (map fst (dict_exclude_unset u)) \<subseteq> set (map fst st)"
    by blast
  then show ?thesis
    using keys_update_loop by (simp add: update_settings_def Let_def)
qed

lemma conforms_update_settings:
  assumes "conforms_SettingsData st"
  shows "conforms_SettingsData (snd (update_settings u st))"
proof -
  from assms have keys: "map fst (snd (update_settings u st)) = map fst st"
    by (simp add: conforms_SettingsData_def update_settings_keys)
  have a: "is_bool (map_of (snd (update_settings u st)) ''autoTrading'')"
    using assms unfolding update_settings_autoTrading
    by (cases "autoTrading u") (simp_all add: conforms_SettingsData_def spec_field_after_def is_bool_def)
  have b: "is_float (map_of (snd (update_settings u st)) ''stopLoss'')"
    using assms unfolding update_settings_stopLoss
    by (cases "stopLoss u") (simp_all add: conforms_SettingsData_def spec_field_after_def is_float_def)
  have c: "is_float (map_of (snd (update_settings u st)) ''takeProfit'')"
    using assms unfolding update_settings_takeProfit
    by (cases "takeProfit u") (simp_all add: conforms_SettingsData_def spec_field_after_def is_float_def)
  have d: "is_bool (map_of (snd (update_settings u st)) ''telegramAlerts'')"
    using assms unfolding update_settings_telegramAlerts
    by (cases "telegramAlerts u") (simp_all add: conforms_SettingsData_def spec_field_after_def is_bool_def)
  have e: "is_account_type (map_of (snd (update_settings u st)) ''accountType'')"
  proof (cases "accountType u")
    case (Given t)
    then show ?thesis unfolding update_settings_accountType
      by (cases t) (simp_all add: spec_field_after_def is_account_type_def)
  qed (use assms in \<open>simp_all add: update_settings_accountType conforms_SettingsData_def spec_field_after_def\<close>)
  from assms keys a b c d e show ?thesis
    by (simp add: conforms_SettingsData_def)
qed

lemma conforms_apply_updates:
  "conforms_SettingsData st \<Longrightarrow> conforms_SettingsData (apply_updates us st)"
  unfolding apply_updates_def
  by (induction us arbitrary: st) (simp_all add: conforms_update_settings)

lemma conforms_mock_settings_data: "conforms_SettingsData mock_settings_data"
  by (simp add: conforms_SettingsData_def mock_settings_data_def settings_fields_def
      is_bool_def is_float_def is_account_type_def)

section \<open>Settings\<close>

text \<open>
  Claim C1. For every partial update and every stored content, \<open>update_settings\<close>
  returns the stored dict as it is after the call; each of the five fields holds the
  request's value when the request gives the field a non-null value, and its prior
  value when the field is absent from the request or null; every other key is
  untouched; and a store without a null value has none afterwards.
\<close>

theorem update_settings_merges_given_fields:
  "fst (update_settings p st) = snd (update_settings p st) \<and>
   map_of (snd (update_settings p st)) ''autoTrading'' =
     spec_field_after PyBool (autoTrading p) (map_of st ''autoTrading'') \<and>
   map_of (snd (update_settings p st)) ''stopLoss'' =
     spec_field_after PyFloat (stopLoss p) (map_of st ''stopLoss'') \<and>
   map_of (snd (update_settings p st)) ''takeProfit'' =
     spec_field_after PyFloat (takeProfit p) (map_of st ''takeProfit'') \<and>
   map_of (snd (update_settings p st)) ''telegramAlerts'' =
     spec_field_after PyBool (telegramAlerts p) (map_of st ''telegramAlerts'') \<and>
   map_of (snd (update_settings p st)) ''accountType'' =
     spec_field_after (\<lambda>a. PyStr (account_type_str a)) (accountType p) (map_of st ''accountType'') \<and>
   (\<forall>k. k \<notin> set settings_fields \<longrightarrow> map_of (snd (update_settings p st)) k = map_of st k) \<and>
   (PyNone \<notin> snd ` set st \<longrightarrow> PyNone \<notin> snd ` set (snd (update_settings p st)))"
  using update_settings_returns_store [of p st] update_settings_autoTrading [of p st]
    update_settings_stopLoss [of p st] update_settings_takeProfit [of p st]
    update_settings_telegramAlerts [of p st] update_settings_accountType [of p st]
    update_settings_other_keys [of _ p st] update_settings_no_null [of st p]
  by blast

theorem update_settings_merges_given_fields_witness:
  "map_of (snd (update_settings partial_example mock_settings_data)) ''stopLoss'' = Some (PyFloat 3) \<and>
   map_of (snd (update_settings partial_example mock_settings_data)) ''telegramAlerts'' = Some (PyBool True) \<and>
   map_of (snd (update_settings partial_example mock_settings_data)) ''autoTrading'' = Some (PyBool False) \<and>
   map_of (snd (update_settings partial_example mock_settings_data)) ''accountType'' = Some (PyStr ''spot'') \<and>
   ''leverage'' \<notin> set settings_fields \<and>
   map_of (snd (update_settings partial_example mock_settings_data)) ''leverage'' = None \<and>
   PyNone \<notin> snd ` set mock_settings_data \<and>
   PyNone \<notin> snd ` set (snd (update_settings partial_example mock_settings_data))"
proof -
  have h1: "''leverage'' \<notin> set settings_fields"
    by (simp add: settings_fields_def)
  have h2: "PyNone \<notin> snd ` set mock_settings_data"
    by (simp add: mock_settings_data_def)
  have m: "map_of mock_settings_data ''stopLoss'' = Some (PyFloat 2.5)"
     "map_of mock_settings_data ''telegramAlerts'' = Some (PyBool True)"
     "map_of mock_settings_data ''autoTrading'' = Some (PyBool False)"
     "map_of mock_settings_data ''accountType'' = Some (PyStr ''futures'')"
     "map_of mock_settings_data ''leverage'' = None"
    by (simp_all add: mock_settings_data_def)
  show ?thesis
    using update_settings_merges_given_fields [of partial_example mock_settings_data] h1 h2 m
    by (simp add: partial_example_def spec_field_after_def)
qed

text \<open>
  Claim C3. At startup, with no update applied, \<open>get_settings\<close> returns autoTrading
  false, stopLoss 2.5, takeProfit 5.0, telegramAlerts true and accountType futures,
  and nothing else.
\<close>

theorem get_settings_at_startup:
  "get_settings (apply_updates [] mock_settings_data) =
     [(''autoTrading'', PyBool False),
      (''stopLoss'', PyFloat 2.5),
      (''takeProfit'', PyFloat 5.0),
      (''telegramAlerts'', PyBool True),
      (''accountType'', PyStr ''futures'')]"
  by (simp add: get_settings_def apply_updates_def mock_settings_data_def)

text \<open>
  Claim C4. For every stored content, the update with no field set returns that
  content and leaves it stored: \<open>get_settings\<close> gives the same before and after.
\<close>

theorem update_settings_empty_noop:
  "update_settings empty_update st = (st, st) \<and>
   get_settings (snd (update_settings empty_update st)) = get_settings st"
  by (simp add: update_settings_def empty_update_def dict_exclude_unset_def)

text \<open>
  Claim C5. From every stored content, the update of accountType to spot followed by
  the update of stopLoss to 1.0 leaves both accountType spot and stopLoss 1.0 stored.
\<close>

theorem update_distinct_fields_independent:
  "map_of (get_settings (apply_updates [update_accountType_spot, update_stopLoss_1] st)) ''accountType''
     = Some (PyStr ''spot'') \<and>
   map_of (get_settings (apply_updates [update_accountType_spot, update_stopLoss_1] st)) ''stopLoss''
     = Some (PyFloat 1.0)"
  by (simp add: get_settings_def apply_updates_def map_of_update_settings map_of_dict_exclude_unset
      map_of_field_item update_accountType_spot_def update_stopLoss_1_def empty_update_def)

text \<open>
  Claim C10. After any finite sequence of partial updates applied to the startup
  content, the stored dict has exactly the five fields of \<^verbatim>\<open>SettingsData\<close>, the two
  flags booleans, the two thresholds floats, and accountType one of futures and spot.
\<close>

theorem settings_shape_invariant:
  "conforms_SettingsData (apply_updates us mock_settings_data)"
  using conforms_mock_settings_data by (rule conforms_apply_updates)

section \<open>Signals\<close>

lemma mock_signal_data_keys: "map fst mock_signal_data = signal_timeframes"
  by (simp add: mock_signal_data_def signal_timeframes_def)

lemma get_signal_recognized:
  "map_of mock_signal_data tf = Some fx \<Longrightarrow> get_signal tf = Inr fx"
proof -
  assume fx: "map_of mock_signal_data tf = Some fx"
  then have "(tf, fx) \<in> set mock_signal_data"
    by (rule map_of_SomeD)
  then have "tf \<in> fst ` set mock_signal_data"
    by force
  with fx show ?thesis
    by (simp add: get_signal_def dict_contains_def dict_getitem_def)
qed

lemma get_signal_default: "get_signal ''default'' = Inr signal_default"
  by (simp add: get_signal_def dict_contains_def dict_getitem_def mock_signal_data_def)

lemma get_signal_unrecognized:
  "tf \<notin> set signal_timeframes \<Longrightarrow> get_signal tf = Inr signal_default"
proof -
  assume "tf \<notin> set signal_timeframes"
  then have "\<not> dict_contains mock_signal_data tf"
    by (simp add: dict_contains_def mock_signal_data_keys)
  then have "get_signal tf = dict_getitem mock_signal_data ''default''"
    by (simp add: get_signal_def)
  then show ?thesis
    by (simp add: dict_getitem_def mock_signal_data_def)
qed

lemma get_signal_cases:
  "get_signal tf \<in> Inr ` {signal_default, signal_1m, signal_5m, signal_15m, signal_1h,
     signal_4h, signal_1d}"
proof (cases "tf \<in> set signal_timeframes")
  case True
  then consider "tf = ''default''" | "tf = ''1m''" | "tf = ''5m''" | "tf = ''15m''"
    | "tf = ''1h''" | "tf = ''4h''" | "tf = ''1d''"
    by (auto simp: signal_timeframes_def)
  then show ?thesis
    by cases (simp_all add: get_signal_def dict_contains_def dict_getitem_def mock_signal_data_def)
next
  case False
  then show ?thesis by (simp add: get_signal_unrecognized)
qed

text \<open>
  Claim C2. The timeframe keys are default, 1m, 5m, 15m, 1h, 4h and 1d. For a key
  among them \<open>get_signal\<close> returns the fixture stored under it; for any other key it
  returns what it returns for default; and for every key it returns a fixture, never
  an error.
\<close>

theorem get_signal_fixture_or_default:
  "map fst mock_signal_data = signal_timeframes \<and>
   (\<forall>fx. map_of mock_signal_data tf = Some fx \<longrightarrow> get_signal tf = Inr fx) \<and>
   (tf \<in> set signal_timeframes \<longrightarrow> (\<exists>fx. map_of mock_signal_data tf = Some fx)) \<and>
   (tf \<notin> set signal_timeframes \<longrightarrow> get_signal tf = get_signal ''default'') \<and>
   (\<exists>fx. get_signal tf = Inr fx)"
proof -
  have a: "tf \<in> set signal_timeframes \<longrightarrow> (\<exists>fx. map_of mock_signal_data tf = Some fx)"
    unfolding mock_signal_data_keys [symmetric]
    by (metis map_of_eq_None_iff not_Some_eq set_map)
  have b: "\<exists>fx. get_signal tf = Inr fx"
    using get_signal_cases [of tf] by blast
  show ?thesis
    using a b mock_signal_data_keys get_signal_recognized [of tf]
      get_signal_unrecognized [of tf] get_signal_default
    by simp
qed

theorem get_signal_fixture_or_default_witness:
  "map_of mock_signal_data ''4h'' = Some signal_4h \<and> get_signal ''4h'' = Inr signal_4h \<and>
   ''4h'' \<in> set signal_timeframes \<and>
   ''2h'' \<notin> set signal_timeframes \<and> get_signal ''2h'' = get_signal ''default''"
proof -
  have h1: "map_of mock_signal_data ''4h'' = Some signal_4h"
    by (simp add: mock_signal_data_def)
  have h2: "''4h'' \<in> set signal_timeframes" and h3: "''2h'' \<notin> set signal_timeframes"
    by (simp_all add: signal_timeframes_def)
  show ?thesis
    using get_signal_fixture_or_default [of "''4h''"] get_signal_fixture_or_default [of "''2h''"]
      h1 h2 h3
    by simp
qed

text \<open>
  Claim C8. For every timeframe key, recognised or not, \<open>get_signal\<close> returns a signal
  whose confidence entry is an integer from 0 to 100.
\<close>

theorem get_signal_confidence_range:
  "\<exists>fx. get_signal tf = Inr fx \<and> confidence_in_range fx"
proof -
  have "confidence_in_range fx"
    if "fx \<in> {signal_default, signal_1m, signal_5m, signal_15m, signal_1h, signal_4h, signal_1d}"
    for fx
    using that
    by (auto simp: confidence_in_range_def signal_default_def signal_1m_def signal_5m_def
        signal_15m_def signal_1h_def signal_4h_def signal_1d_def)
  with get_signal_cases [of tf] show ?thesis by blast
qed

text \<open>
  Claim C9. A request without the timeframe parameter runs the handler on 15m and
  gets the 15m fixture, which is not the fixture an unrecognised key gets.
\<close>

theorem get_signal_request_omitted:
  "get_signal_request None = get_signal ''15m'' \<and>
   get_signal_request None = Inr signal_15m \<and>
   get_signal_request None \<noteq> get_signal ''default'' \<and>
   get_signal_request None \<noteq> get_signal_request (Some ''no such timeframe'')"
  by (simp add: get_signal_request_def get_signal_def dict_contains_def dict_getitem_def
      mock_signal_data_def signal_15m_def signal_default_def)

section \<open>Trade log\<close>

text \<open>
  Claim C6. \<open>get_trade_log\<close> returns the trades in the order they are written in
  \<^verbatim>\<open>mock_trade_log_data\<close>, with ids 1 to 8 in that order, and no two trades share
  an id.
\<close>

theorem get_trade_log_order_and_unique_ids:
  "get_trade_log = mock_trade_log_data \<and>
   trade_ids get_trade_log =
     [Inr (PyStr ''1''), Inr (PyStr ''2''), Inr (PyStr ''3''), Inr (PyStr ''4''),
      Inr (PyStr ''5''), Inr (PyStr ''6''), Inr (PyStr ''7''), Inr (PyStr ''8'')] \<and>
   distinct (trade_ids get_trade_log)"
  by (simp add: get_trade_log_def trade_ids_def dict_getitem_def mock_trade_log_data_def)

end
